theory Spec2Isabelle
  imports Complex_Main
begin

section \<open>The depth mask material of src/materials/DepthMaskMaterial.js\<close>

text \<open>
  The class \<^verbatim>\<open>DepthMaskMaterial\<close> keeps its configuration in the preprocessor
  definitions (\<^verbatim>\<open>defines\<close>) of a shader material: the tolerance as the text that
  \<^verbatim>\<open>toFixed(16)\<close> prints, the strategy for maximum depth values as the text that
  \<^verbatim>\<open>toFixed(0)\<close> prints, and the depth test as the text of a boolean expression over
  \<^verbatim>\<open>d0\<close> and \<^verbatim>\<open>d1\<close>. This theory embeds the class: the values of the
  language, the built-in conversions between numbers and strings that the class calls, the
  state of a material, and each method as a function from the state to a completion and
  the state the call leaves behind.
\<close>

subsection \<open>Values\<close>

text \<open>
  A number of the language is a binary64 value. The finite ones are rational numbers, so
  \<open>Fin q\<close> stands for the number whose exact value is \<open>q\<close>; \<open>round_double\<close> below says
  which rationals are binary64 values. The two zeros are one value here: no method of the
  class distinguishes them.
\<close>

datatype jsnum = Fin rat | PosInf | NegInf | NaN

datatype jsval = Undefined | Null | Boolean bool | Number jsnum | String string

datatype error = TypeError | RangeError

text \<open>Strict equality (\<^verbatim>\<open>===\<close>): NaN equals nothing, not even itself.\<close>

definition strict_eq :: "jsval \<Rightarrow> jsval \<Rightarrow> bool" where
  "strict_eq a b = (a = b \<and> a \<noteq> Number NaN)"

text \<open>The conversion to a boolean that the conditional operator applies to its test.\<close>

definition ToBoolean :: "jsval \<Rightarrow> bool" where
  "ToBoolean v =
     (case v of
        Undefined \<Rightarrow> False
      | Null \<Rightarrow> False
      | Boolean b \<Rightarrow> b
      | Number n \<Rightarrow> (case n of Fin q \<Rightarrow> q \<noteq> 0 | NaN \<Rightarrow> False | _ \<Rightarrow> True)
      | String s \<Rightarrow> s \<noteq> [])"

text \<open>Reading a property of an object literal: a name it does not have reads as undefined.\<close>

definition get_prop :: "(string \<rightharpoonup> jsval) \<Rightarrow> string \<Rightarrow> jsval" where
  "get_prop obj k = (case obj k of None \<Rightarrow> Undefined | Some v \<Rightarrow> v)"

subsection \<open>Rounding a rational to binary64\<close>

text \<open>The number of binary digits of a positive integer.\<close>

function bitlen :: "int \<Rightarrow> nat" where
  "bitlen n = (if n \<le> 0 then 0 else Suc (bitlen (n div 2)))"
  by pat_completeness auto
termination
  by (relation "measure nat") auto

declare bitlen.simps [simp del]

definition pow2 :: "int \<Rightarrow> rat" where
  "pow2 e = (if 0 \<le> e then 2 ^ nat e else 1 / 2 ^ nat (- e))"

definition pow10 :: "int \<Rightarrow> rat" where
  "pow10 e = (if 0 \<le> e then 10 ^ nat e else 1 / 10 ^ nat (- e))"

text \<open>The integer \<open>e\<close> with \<open>2 ^ e \<le> a < 2 ^ (e + 1)\<close>, for a positive \<open>a\<close>.\<close>

definition ilog2 :: "rat \<Rightarrow> int" where
  "ilog2 a =
     (if 1 \<le> a then int (bitlen \<lfloor>a\<rfloor>) - 1
      else - int (bitlen (\<lceil>1 / a\<rceil> - 1)))"

definition round_half_even :: "rat \<Rightarrow> int" where
  "round_half_even q =
     (let n = \<lfloor>q\<rfloor>; r = q - of_int n in
      if r < 1 / 2 then n
      else if 1 / 2 < r then n + 1
      else if even n then n else n + 1)"

text \<open>
  Round to nearest, ties to even, with 53 bits of precision and the exponent range of
  binary64: the spacing of the values around \<open>a\<close> is \<open>2 ^ (e - 52)\<close>, never finer than
  \<open>2 ^ - 1074\<close>, and a result of \<open>2 ^ 1024\<close> or more is an infinity.
\<close>

definition round_double :: "rat \<Rightarrow> jsnum" where
  "round_double q =
     (if q = 0 then Fin 0
      else
        let a = \<bar>q\<bar>;
            e = max (ilog2 a) (- 1022);
            u = pow2 (e - 52);
            r = of_int (round_half_even (a / u)) * u
        in if pow2 1024 \<le> r then (if q < 0 then NegInf else PosInf)
           else Fin (if q < 0 then - r else r))"

definition negate :: "jsnum \<Rightarrow> jsnum" where
  "negate n = (case n of Fin q \<Rightarrow> Fin (- q) | PosInf \<Rightarrow> NegInf | NegInf \<Rightarrow> PosInf | NaN \<Rightarrow> NaN)"

subsection \<open>Decimal digits\<close>

text \<open>
  Integers are of type \<open>int\<close> throughout, also where they cannot be negative: the
  decimal digits of a non-negative integer, most significant first, and the value of a
  string of digits.
\<close>

definition digit_char :: "int \<Rightarrow> char" where
  "digit_char d = char_of (48 + d)"

function digits :: "int \<Rightarrow> string" where
  "digits n = (if n < 10 then [digit_char n] else digits (n div 10) @ [digit_char (n mod 10)])"
  by pat_completeness auto
termination
  by (relation "measure nat") auto

declare digits.simps [simp del]

definition is_digit :: "char \<Rightarrow> bool" where
  "is_digit c = (48 \<le> (of_char c :: int) \<and> (of_char c :: int) \<le> 57)"

definition digit_val :: "char \<Rightarrow> int" where
  "digit_val c = of_char c - 48"

definition digits_value :: "string \<Rightarrow> int" where
  "digits_value s = foldl (\<lambda>a c. 10 * a + digit_val c) 0 s"

definition all_digits :: "string \<Rightarrow> bool" where
  "all_digits s = (s \<noteq> [] \<and> list_all is_digit s)"

subsection \<open>Strings to numbers\<close>

text \<open>
  \<^verbatim>\<open>Number(value)\<close> converts its argument to a number; a string is read by the
  grammar of string numeric literals: optional white space around an optionally signed
  decimal literal (digits, an optional fraction, an optional exponent, or
  \<^verbatim>\<open>Infinity\<close>) or an unsigned hexadecimal, octal or binary integer. The empty
  string is 0, anything else outside the grammar is NaN, and the literal's exact value
  is rounded to binary64. Strings are sequences of 8-bit characters here, so only the
  white space of ASCII is recognised.
\<close>

definition is_ws :: "char \<Rightarrow> bool" where
  "is_ws c = ((of_char c :: int) \<in> {9, 10, 11, 12, 13, 32})"

definition trim :: "string \<Rightarrow> string" where
  "trim s = rev (dropWhile is_ws (rev (dropWhile is_ws s)))"

definition signed_integer :: "string \<Rightarrow> int option" where
  "signed_integer s =
     (case s of
        [] \<Rightarrow> None
      | c # r \<Rightarrow>
          if c = CHR ''+'' then (if all_digits r then Some (digits_value r) else None)
          else if c = CHR ''-'' then (if all_digits r then Some (- digits_value r) else None)
          else if all_digits s then Some (digits_value s) else None)"

text \<open>An optional exponent part that ends the literal; no exponent is the exponent 0.\<close>

definition exponent_part :: "string \<Rightarrow> int option" where
  "exponent_part s =
     (case s of
        [] \<Rightarrow> Some 0
      | c # r \<Rightarrow> if c = CHR ''e'' \<or> c = CHR ''E'' then signed_integer r else None)"

definition unsigned_decimal :: "string \<Rightarrow> rat option" where
  "unsigned_decimal s =
     (let ip = takeWhile is_digit s; r1 = dropWhile is_digit s in
      if r1 \<noteq> [] \<and> hd r1 = CHR ''.'' then
        (let fp = takeWhile is_digit (tl r1); r2 = dropWhile is_digit (tl r1) in
         if ip = [] \<and> fp = [] then None
         else map_option
                (\<lambda>e. of_int (digits_value (ip @ fp)) * pow10 (e - int (length fp)))
                (exponent_part r2))
      else if ip = [] then None
      else map_option (\<lambda>e. of_int (digits_value ip) * pow10 e) (exponent_part r1))"

definition radix_digit :: "char \<Rightarrow> int option" where
  "radix_digit c =
     (let n = of_char c :: int in
      if 48 \<le> n \<and> n \<le> 57 then Some (n - 48)
      else if 97 \<le> n \<and> n \<le> 102 then Some (n - 87)
      else if 65 \<le> n \<and> n \<le> 70 then Some (n - 55)
      else None)"

fun radix_value :: "int \<Rightarrow> int \<Rightarrow> string \<Rightarrow> int option" where
  "radix_value b acc [] = Some acc"
| "radix_value b acc (c # cs) =
     (case radix_digit c of
        None \<Rightarrow> None
      | Some d \<Rightarrow> if d < b then radix_value b (b * acc + d) cs else None)"

definition non_decimal :: "string \<Rightarrow> int option" where
  "non_decimal s =
     (case s of
        z # p # r \<Rightarrow>
          if z = CHR ''0'' \<and> r \<noteq> [] then
            (if p = CHR ''x'' \<or> p = CHR ''X'' then radix_value 16 0 r
             else if p = CHR ''o'' \<or> p = CHR ''O'' then radix_value 8 0 r
             else if p = CHR ''b'' \<or> p = CHR ''B'' then radix_value 2 0 r
             else None)
          else None
      | _ \<Rightarrow> None)"

definition unsigned_literal :: "string \<Rightarrow> jsnum" where
  "unsigned_literal s =
     (if s = ''Infinity'' then PosInf
      else case unsigned_decimal s of None \<Rightarrow> NaN | Some q \<Rightarrow> round_double q)"

definition StringToNumber :: "string \<Rightarrow> jsnum" where
  "StringToNumber s0 =
     (let s = trim s0 in
      case s of
        [] \<Rightarrow> Fin 0
      | c # r \<Rightarrow>
          (case non_decimal s of
             Some n \<Rightarrow> round_double (of_int n)
           | None \<Rightarrow>
               if c = CHR ''+'' then unsigned_literal r
               else if c = CHR ''-'' then negate (unsigned_literal r)
               else unsigned_literal s))"

definition ToNumber :: "jsval \<Rightarrow> jsnum" where
  "ToNumber v =
     (case v of
        Undefined \<Rightarrow> NaN
      | Null \<Rightarrow> Fin 0
      | Boolean b \<Rightarrow> Fin (if b then 1 else 0)
      | Number n \<Rightarrow> n
      | String s \<Rightarrow> StringToNumber s)"

subsection \<open>Numbers to strings\<close>

text \<open>
  \<^verbatim>\<open>Number.prototype.toString\<close> for a finite \<open>x\<close> of at least \<open>10 ^ 21\<close>, the only
  values for which \<^verbatim>\<open>toFixed\<close> calls it: the fewest significant digits \<open>s\<close>, with a
  power of ten, whose product rounds to \<open>x\<close> (the nearest such product when there are two),
  written in exponent notation. Seventeen digits identify every binary64 value; the last
  equation of \<open>shortest\<close> is reached for no binary64 value.
\<close>

definition digit_candidates :: "rat \<Rightarrow> int \<Rightarrow> int \<Rightarrow> int list" where
  "digit_candidates x n k =
     (let p = pow10 (n - k);
          lo = \<lfloor>x / p\<rfloor>;
          hi = lo + 1;
          below = x / p - of_int lo;
          above = of_int hi - x / p;
          nearest_first =
            (if below < above then [lo, hi]
             else if above < below then [hi, lo]
             else if even lo then [lo, hi] else [hi, lo])
      in filter (\<lambda>s. round_double (of_int s * p) = Fin x) nearest_first)"

fun shortest :: "rat \<Rightarrow> int \<Rightarrow> int list \<Rightarrow> int \<times> int" where
  "shortest x n [] = (\<lfloor>x / pow10 (n - 17)\<rfloor>, n - 17)"
| "shortest x n (k # ks) =
     (case digit_candidates x n k of
        s # _ \<Rightarrow> (s, n - k)
      | [] \<Rightarrow> shortest x n ks)"

definition strip_zeros :: "string \<Rightarrow> string" where
  "strip_zeros ds = rev (dropWhile (\<lambda>c. c = CHR ''0'') (rev ds))"

definition toString_large :: "rat \<Rightarrow> string" where
  "toString_large x =
     (let n = int (length (digits \<lfloor>x\<rfloor>));
          (s, e) = shortest x n [1..17];
          ds = digits s;
          m = strip_zeros ds
      in take 1 m @ (if length m \<le> 1 then [] else ''.'' @ drop 1 m)
         @ ''e+'' @ digits (e + int (length ds) - 1))"

text \<open>
  \<^verbatim>\<open>Number.prototype.toFixed(f)\<close>: the integer \<open>n\<close> nearest to \<open>x * 10 ^ f\<close> (the
  larger one of two), printed with at least \<open>f + 1\<close> digits and a point before the last
  \<open>f\<close> of them.
\<close>

definition fixed_digits :: "rat \<Rightarrow> nat \<Rightarrow> string" where
  "fixed_digits x f =
     (if 10 ^ 21 \<le> x then toString_large x
      else
        let n = \<lfloor>x * 10 ^ f + 1 / 2\<rfloor>;
            m = digits n
        in if f = 0 then m
           else
             let z = replicate (f + 1 - length m) (CHR ''0'') @ m;
                 k = length z
             in take (k - f) z @ ''.'' @ drop (k - f) z)"

definition toFixed :: "jsnum \<Rightarrow> nat \<Rightarrow> error + string" where
  "toFixed x f =
     (if 100 < f then Inl RangeError
      else case x of
        NaN \<Rightarrow> Inr ''NaN''
      | PosInf \<Rightarrow> Inr ''Infinity''
      | NegInf \<Rightarrow> Inr ''-Infinity''
      | Fin q \<Rightarrow> Inr ((if q < 0 then ''-'' else []) @ fixed_digits \<bar>q\<bar> f))"

text \<open>
  The call \<^verbatim>\<open>value.toFixed(f)\<close> on any value: only a number has the method; reading
  it from undefined or null, or calling what a boolean or a string has under that name
  (nothing), throws a TypeError.
\<close>

definition call_toFixed :: "jsval \<Rightarrow> nat \<Rightarrow> error + jsval" where
  "call_toFixed v f =
     (case v of
        Number x \<Rightarrow> (case toFixed x f of Inl e \<Rightarrow> Inl e | Inr s \<Rightarrow> Inr (String s))
      | _ \<Rightarrow> Inl TypeError)"

subsection \<open>The constants the class imports\<close>

text \<open>
  The depth modes are constants of the three.js library, which the source imports and
  compares with \<^verbatim>\<open>===\<close> in its \<^verbatim>\<open>switch\<close>; they are the numbers 0 to 7 of that
  library's table of constants.
\<close>

definition NeverDepth :: jsval where "NeverDepth = Number (Fin 0)"
definition AlwaysDepth :: jsval where "AlwaysDepth = Number (Fin 1)"
definition LessDepth :: jsval where "LessDepth = Number (Fin 2)"
definition LessEqualDepth :: jsval where "LessEqualDepth = Number (Fin 3)"
definition EqualDepth :: jsval where "EqualDepth = Number (Fin 4)"
definition GreaterEqualDepth :: jsval where "GreaterEqualDepth = Number (Fin 5)"
definition GreaterDepth :: jsval where "GreaterDepth = Number (Fin 6)"
definition NotEqualDepth :: jsval where "NotEqualDepth = Number (Fin 7)"

text \<open>The enumeration of depth test strategies, an object literal with three properties.\<close>

definition DepthTestStrategy :: "string \<rightharpoonup> jsval" where
  "DepthTestStrategy =
     [''DEFAULT'' \<mapsto> Number (Fin 0),
      ''KEEP_MAX_DEPTH'' \<mapsto> Number (Fin 1),
      ''DISCARD_MAX_DEPTH'' \<mapsto> Number (Fin 2)]"

subsection \<open>The state of a material and its statements\<close>

text \<open>
  The fields of a material that the class reads or writes: the preprocessor definitions
  (\<^verbatim>\<open>defines\<close>, here \<open>defines_map\<close>),
  \<^verbatim>\<open>toneMapped\<close>, the private \<^verbatim>\<open>depthMode\<close> and the \<^verbatim>\<open>needsUpdate\<close> flag
  of the base class. A statement takes the state to a completion (\<open>None\<close> when it
  completes normally, the error it throws otherwise) and the state it leaves; a sequence
  stops at the first statement that throws, with the state as it is then.
\<close>

record material =
  defines_map :: "string \<rightharpoonup> jsval"
  toneMapped :: bool
  depthMode :: jsval
  needsUpdate :: bool

type_synonym stmt = "material \<Rightarrow> error option \<times> material"

definition seq :: "stmt \<Rightarrow> stmt \<Rightarrow> stmt" where
  "seq s t m = (case s m of (None, m') \<Rightarrow> t m' | (Some e, m') \<Rightarrow> (Some e, m'))"

text \<open>
  An assignment evaluates its right-hand side before it writes: when that throws, nothing
  is written.
\<close>

definition assign_define :: "string \<Rightarrow> error + jsval \<Rightarrow> stmt" where
  "assign_define k rhs m =
     (case rhs of
        Inl e \<Rightarrow> (Some e, m)
      | Inr v \<Rightarrow> (None, m\<lparr>defines_map := (defines_map m)(k \<mapsto> v)\<rparr>))"

definition assign_needsUpdate :: "bool \<Rightarrow> stmt" where
  "assign_needsUpdate b m = (None, m\<lparr>needsUpdate := b\<rparr>)"

definition assign_depthMode :: "jsval \<Rightarrow> stmt" where
  "assign_depthMode v m = (None, m\<lparr>depthMode := v\<rparr>)"

definition assign_toneMapped :: "bool \<Rightarrow> stmt" where
  "assign_toneMapped b m = (None, m\<lparr>toneMapped := b\<rparr>)"

subsection \<open>The methods of DepthMaskMaterial\<close>

definition getMaxDepthStrategy :: "material \<Rightarrow> jsval" where
  "getMaxDepthStrategy m = Number (ToNumber (get_prop (defines_map m) ''DEPTH_TEST_STRATEGY''))"

definition setMaxDepthStrategy :: "jsval \<Rightarrow> stmt" where
  "setMaxDepthStrategy v =
     seq (assign_define ''DEPTH_TEST_STRATEGY'' (call_toFixed v 0))
         (assign_needsUpdate True)"

text \<open>
  The deprecated accessors. The getter compares with the property \<^verbatim>\<open>KEEP\<close> of the
  enumeration, as the source does.
\<close>

definition get_keepFar :: "material \<Rightarrow> bool" where
  "get_keepFar m = strict_eq (getMaxDepthStrategy m) (get_prop DepthTestStrategy ''KEEP'')"

definition set_keepFar :: "jsval \<Rightarrow> stmt" where
  "set_keepFar v =
     setMaxDepthStrategy
       (if ToBoolean v then get_prop DepthTestStrategy ''KEEP_MAX_DEPTH''
        else get_prop DepthTestStrategy ''DISCARD_MAX_DEPTH'')"

definition getEpsilon :: "material \<Rightarrow> jsval" where
  "getEpsilon m = Number (ToNumber (get_prop (defines_map m) ''DEPTH_EPSILON''))"

definition setEpsilon :: "jsval \<Rightarrow> stmt" where
  "setEpsilon v =
     seq (assign_define ''DEPTH_EPSILON'' (call_toFixed v 16))
         (assign_needsUpdate True)"

definition getDepthMode :: "material \<Rightarrow> jsval" where
  "getDepthMode m = depthMode m"

text \<open>
  The \<^verbatim>\<open>switch\<close> of \<^verbatim>\<open>setDepthMode\<close>, its cases in the order of the source;
  \<^verbatim>\<open>GreaterDepth\<close> shares its branch with \<^verbatim>\<open>default\<close>.
\<close>

definition depthTest_text :: "jsval \<Rightarrow> string" where
  "depthTest_text mode =
     (if strict_eq mode NeverDepth then ''false''
      else if strict_eq mode AlwaysDepth then ''true''
      else if strict_eq mode EqualDepth then ''abs(d1 - d0) <= DEPTH_EPSILON''
      else if strict_eq mode NotEqualDepth then ''abs(d1 - d0) > DEPTH_EPSILON''
      else if strict_eq mode LessDepth then ''d0 > d1''
      else if strict_eq mode LessEqualDepth then ''d0 >= d1''
      else if strict_eq mode GreaterEqualDepth then ''d0 <= d1''
      else if strict_eq mode GreaterDepth then ''d0 < d1''
      else ''d0 < d1'')"

definition setDepthMode :: "jsval \<Rightarrow> stmt" where
  "setDepthMode mode =
     seq (assign_depthMode mode)
       (seq (assign_define ''depthTest(d0, d1)'' (Inr (String (depthTest_text mode))))
            (assign_needsUpdate True))"

text \<open>
  The constructor: the base class receives the four initial definitions, then the
  constructor clears \<^verbatim>\<open>toneMapped\<close>, sets the depth mode and calls
  \<^verbatim>\<open>setDepthMode(LessDepth)\<close>. The strategy starts as a number, not as a string.
\<close>

definition base_material :: material where
  "base_material =
     \<lparr>defines_map =
        [''DEPTH_EPSILON'' \<mapsto> String ''0.00001'',
         ''DEPTH_PACKING_0'' \<mapsto> String ''0'',
         ''DEPTH_PACKING_1'' \<mapsto> String ''0'',
         ''DEPTH_TEST_STRATEGY'' \<mapsto> get_prop DepthTestStrategy ''KEEP_MAX_DEPTH''],
      toneMapped = True,
      depthMode = Undefined,
      needsUpdate = False\<rparr>"

definition constructor :: "error option \<times> material" where
  "constructor =
     seq (assign_toneMapped False)
       (seq (assign_depthMode LessDepth) (setDepthMode LessDepth)) base_material"

definition new_material :: material where
  "new_material = snd constructor"

subsection \<open>The depth test as the shader evaluates it\<close>

text \<open>
  Modelled from the spec: the fragment shader that expands the macro
  \<^verbatim>\<open>depthTest(d0, d1)\<close> is not among the sources. Sections 4.2 and 6 of the
  specification describe the text that \<^verbatim>\<open>setDepthMode\<close> installs as a boolean
  predicate of exactly two named inputs, \<^verbatim>\<open>d0\<close> and \<^verbatim>\<open>d1\<close>, with the
  tolerance bound to a named constant. The text is read here as an expression of the
  shading language: the constants \<^verbatim>\<open>true\<close> and \<^verbatim>\<open>false\<close>, or a comparison
  of two operands, each a name or \<^verbatim>\<open>abs\<close> of a difference of two names. Its value is
  computed over exact rationals; the rounding of the device's floating point numbers is
  not part of the model. A text outside this grammar, or a name without a value, has no
  value (\<open>None\<close>): such a shader does not compile.
\<close>

datatype token =
  TIdent string | TLParen | TRParen | TMinus | TLess | TLessEq | TGreater | TGreaterEq
  | TOther char

definition is_ident_char :: "char \<Rightarrow> bool" where
  "is_ident_char c =
     (let n = of_char c :: int in
      (48 \<le> n \<and> n \<le> 57) \<or> (65 \<le> n \<and> n \<le> 90) \<or> (97 \<le> n \<and> n \<le> 122) \<or> n = 95)"

definition flush :: "string \<Rightarrow> token list" where
  "flush acc = (if acc = [] then [] else [TIdent (rev acc)])"

text \<open>The characters of a name are collected, last first, in \<open>acc\<close>.\<close>

fun lex :: "string \<Rightarrow> string \<Rightarrow> token list" where
  "lex acc [] = flush acc"
| "lex acc (c # cs) =
     (if is_ident_char c then lex (c # acc) cs
      else flush acc @
        (if c = CHR '' '' then lex [] cs
         else if c = CHR ''('' then TLParen # lex [] cs
         else if c = CHR '')'' then TRParen # lex [] cs
         else if c = CHR ''-'' then TMinus # lex [] cs
         else if c = CHR ''<'' then
           (case cs of
              [] \<Rightarrow> [TLess]
            | d # ds \<Rightarrow> if d = CHR ''='' then TLessEq # lex [] ds else TLess # lex [] cs)
         else if c = CHR ''>'' then
           (case cs of
              [] \<Rightarrow> [TGreater]
            | d # ds \<Rightarrow> if d = CHR ''='' then TGreaterEq # lex [] ds else TGreater # lex [] cs)
         else TOther c # lex [] cs))"

datatype aexp = Var string | Sub aexp aexp | Abs aexp

datatype cmp = Lt | Le | Gt | Ge

datatype bexp = BConst bool | Cmp aexp cmp aexp

definition parse_operand :: "token list \<Rightarrow> (aexp \<times> token list) option" where
  "parse_operand ts =
     (case ts of
        TIdent f # TLParen # TIdent a # TMinus # TIdent b # TRParen # rest \<Rightarrow>
          if f = ''abs'' then Some (Abs (Sub (Var a) (Var b)), rest) else None
      | TIdent x # rest \<Rightarrow> Some (Var x, rest)
      | _ \<Rightarrow> None)"

definition cmp_of :: "token \<Rightarrow> cmp option" where
  "cmp_of t =
     (case t of
        TLess \<Rightarrow> Some Lt | TLessEq \<Rightarrow> Some Le | TGreater \<Rightarrow> Some Gt | TGreaterEq \<Rightarrow> Some Ge
      | _ \<Rightarrow> None)"

definition parse_pred :: "token list \<Rightarrow> bexp option" where
  "parse_pred ts =
     (if ts = [TIdent ''true''] then Some (BConst True)
      else if ts = [TIdent ''false''] then Some (BConst False)
      else
        case parse_operand ts of
          Some (l, t # r1) \<Rightarrow>
            (case (cmp_of t, parse_operand r1) of
               (Some c, Some (r, [])) \<Rightarrow> Some (Cmp l c r)
             | _ \<Rightarrow> None)
        | _ \<Rightarrow> None)"

definition read_pred :: "string \<Rightarrow> bexp option" where
  "read_pred t = parse_pred (lex [] t)"

fun aval :: "aexp \<Rightarrow> (string \<rightharpoonup> rat) \<Rightarrow> rat option" where
  "aval (Var x) env = env x"
| "aval (Sub a b) env =
     (case (aval a env, aval b env) of (Some u, Some v) \<Rightarrow> Some (u - v) | _ \<Rightarrow> None)"
| "aval (Abs a) env = map_option abs (aval a env)"

fun holds :: "cmp \<Rightarrow> rat \<Rightarrow> rat \<Rightarrow> bool" where
  "holds Lt u v = (u < v)"
| "holds Le u v = (u \<le> v)"
| "holds Gt u v = (u > v)"
| "holds Ge u v = (u \<ge> v)"

fun bval :: "bexp \<Rightarrow> (string \<rightharpoonup> rat) \<Rightarrow> bool option" where
  "bval (BConst b) env = Some b"
| "bval (Cmp l c r) env =
     (case (aval l env, aval r env) of (Some u, Some v) \<Rightarrow> Some (holds c u v) | _ \<Rightarrow> None)"

text \<open>
  The value the shader sees for the constant \<^verbatim>\<open>DEPTH_EPSILON\<close>: the exact value of
  the decimal text stored under that name (a number stored there is its own value).
\<close>

definition macro_value :: "jsval \<Rightarrow> rat option" where
  "macro_value v =
     (case v of
        String s \<Rightarrow>
          (case s of
             [] \<Rightarrow> None
           | c # r \<Rightarrow> if c = CHR ''-'' then map_option uminus (unsigned_decimal r)
                      else unsigned_decimal s)
      | Number n \<Rightarrow> (case n of Fin q \<Rightarrow> Some q | _ \<Rightarrow> None)
      | _ \<Rightarrow> None)"

definition epsilon_value :: "material \<Rightarrow> rat option" where
  "epsilon_value m = macro_value (get_prop (defines_map m) ''DEPTH_EPSILON'')"

definition shader_env :: "material \<Rightarrow> rat \<Rightarrow> rat \<Rightarrow> (string \<rightharpoonup> rat)" where
  "shader_env m d0 d1 =
     (\<lambda>x. if x = ''d0'' then Some d0
          else if x = ''d1'' then Some d1
          else if x = ''DEPTH_EPSILON'' then epsilon_value m
          else None)"

text \<open>The keep decision of a material for the depth pair \<open>(d0, d1)\<close>.\<close>

definition depthTest :: "material \<Rightarrow> rat \<Rightarrow> rat \<Rightarrow> bool option" where
  "depthTest m d0 d1 =
     (case defines_map m ''depthTest(d0, d1)'' of
        Some (String t) \<Rightarrow>
          (case read_pred t of
             None \<Rightarrow> None
           | Some b \<Rightarrow> bval b (shader_env m d0 d1))
      | _ \<Rightarrow> None)"

section \<open>Facts about the conversions between numbers and strings\<close>

lemma digit_char_values:
  "digit_char 0 = CHR ''0''" "digit_char 1 = CHR ''1''" "digit_char 2 = CHR ''2''"
  "digit_char 3 = CHR ''3''" "digit_char 4 = CHR ''4''" "digit_char 5 = CHR ''5''"
  "digit_char 6 = CHR ''6''" "digit_char 7 = CHR ''7''" "digit_char 8 = CHR ''8''"
  "digit_char 9 = CHR ''9''"
  by (simp_all add: digit_char_def char_of_def)

lemma is_digit_digit_char: "0 \<le> d \<Longrightarrow> d < 10 \<Longrightarrow> is_digit (digit_char d)"
  by (simp add: is_digit_def digit_char_def)

lemma digit_val_digit_char: "0 \<le> d \<Longrightarrow> d < 10 \<Longrightarrow> digit_val (digit_char d) = d"
  by (simp add: digit_val_def digit_char_def)

lemma digits_not_empty: "digits n \<noteq> []"
  by (subst digits.simps) simp

lemma digits_all_digits: "0 \<le> n \<Longrightarrow> list_all is_digit (digits n)"
proof (induction n rule: digits.induct)
  case (1 n)
  show ?case
  proof (cases "n < 10")
    case True
    with "1.prems" show ?thesis
      by (subst digits.simps) (simp add: is_digit_digit_char)
  next
    case False
    with "1.prems" have "list_all is_digit (digits (n div 10))"
      by (intro "1.IH") simp_all
    moreover have "is_digit (digit_char (n mod 10))"
      by (simp add: is_digit_digit_char)
    ultimately show ?thesis
      using False by (subst digits.simps) simp
  qed
qed

lemma digits_value_snoc: "digits_value (xs @ [c]) = 10 * digits_value xs + digit_val c"
  by (simp add: digits_value_def)

lemma digits_value_digits: "0 \<le> n \<Longrightarrow> digits_value (digits n) = n"
proof (induction n rule: digits.induct)
  case (1 n)
  show ?case
  proof (cases "n < 10")
    case True
    with "1.prems" show ?thesis
      by (subst digits.simps) (simp add: digits_value_def digit_val_digit_char)
  next
    case False
    with "1.prems" have "digits_value (digits (n div 10)) = n div 10"
      by (intro "1.IH") simp_all
    then show ?thesis
      using False by (subst digits.simps) (simp add: digits_value_snoc digit_val_digit_char)
  qed
qed

lemma foldl_zeros: "foldl (\<lambda>a c. 10 * a + digit_val c) 0 (replicate j (CHR ''0'')) = 0"
  by (induction j) (simp_all add: digit_val_def)

lemma digits_value_zeros: "digits_value (replicate j (CHR ''0'') @ s) = digits_value s"
  by (simp add: digits_value_def foldl_zeros)

lemma is_digit_zero: "is_digit (CHR ''0'')"
  by (simp add: is_digit_def)

lemma is_digit_facts:
  "is_digit c \<Longrightarrow> \<not> is_ws c"
  "is_digit c \<Longrightarrow> c \<noteq> CHR ''+''" "is_digit c \<Longrightarrow> c \<noteq> CHR ''-''" "is_digit c \<Longrightarrow> c \<noteq> CHR ''.''"
  "is_digit c \<Longrightarrow> c \<noteq> CHR ''I''"
  "is_digit c \<Longrightarrow> c \<noteq> CHR ''x''" "is_digit c \<Longrightarrow> c \<noteq> CHR ''X''"
  "is_digit c \<Longrightarrow> c \<noteq> CHR ''o''" "is_digit c \<Longrightarrow> c \<noteq> CHR ''O''"
  "is_digit c \<Longrightarrow> c \<noteq> CHR ''b''" "is_digit c \<Longrightarrow> c \<noteq> CHR ''B''"
  by (auto simp: is_digit_def is_ws_def)

lemma trim_id:
  assumes "s \<noteq> []" and "\<not> is_ws (hd s)" and "\<not> is_ws (last s)"
  shows "trim s = s"
proof -
  have lead: "dropWhile is_ws s = s"
    using assms by (cases s) simp_all
  have "rev s \<noteq> []" and "\<not> is_ws (hd (rev s))"
    using assms by (simp_all add: hd_rev)
  then have trail: "dropWhile is_ws (rev s) = rev s"
    by (cases "rev s") simp_all
  show ?thesis
    by (simp add: trim_def lead trail)
qed

text \<open>A digit string with a point before its last \<open>f\<close> digits reads as a decimal fraction.\<close>

lemma unsigned_decimal_point:
  assumes "list_all is_digit a" and "list_all is_digit b" and "a \<noteq> []"
  shows "unsigned_decimal (a @ CHR ''.'' # b)
    = Some (of_int (digits_value (a @ b)) * pow10 (- int (length b)))"
proof -
  have da: "\<And>x. x \<in> set a \<Longrightarrow> is_digit x" and db: "\<And>x. x \<in> set b \<Longrightarrow> is_digit x"
    using assms by (simp_all add: list_all_iff)
  have no_point: "\<not> is_digit (CHR ''.'')"
    by (simp add: is_digit_def)
  have t1: "takeWhile is_digit (a @ CHR ''.'' # b) = a"
    using da no_point by (simp add: takeWhile_append2)
  have d1: "dropWhile is_digit (a @ CHR ''.'' # b) = CHR ''.'' # b"
    using da no_point by (simp add: dropWhile_append2)
  have t2: "takeWhile is_digit b = b"
    using db by (simp add: takeWhile_eq_all_conv)
  have d2: "dropWhile is_digit b = []"
    using db by simp
  show ?thesis
    unfolding unsigned_decimal_def Let_def t1 d1
    using assms(3) by (simp add: t2 d2 exponent_part_def)
qed

lemma StringToNumber_unsigned:
  assumes "s \<noteq> []" and "is_digit (hd s)" and "is_digit (last s)" and "non_decimal s = None"
  shows "StringToNumber s = unsigned_literal s"
proof -
  have "trim s = s"
    using assms by (intro trim_id) (simp_all add: is_digit_facts)
  moreover obtain c r where "s = c # r"
    using assms(1) by (cases s) auto
  ultimately show ?thesis
    using assms by (simp add: StringToNumber_def is_digit_facts)
qed

lemma StringToNumber_minus:
  assumes "s \<noteq> []" and "is_digit (last s)"
  shows "StringToNumber (CHR ''-'' # s) = negate (unsigned_literal s)"
proof -
  have "\<not> is_ws (CHR ''-'')"
    by (simp add: is_ws_def)
  then have "trim (CHR ''-'' # s) = CHR ''-'' # s"
    using assms by (intro trim_id) (simp_all add: is_digit_facts)
  moreover have "non_decimal (CHR ''-'' # s) = None"
    by (simp add: non_decimal_def split: list.split)
  ultimately show ?thesis
    by (simp add: StringToNumber_def)
qed

text \<open>What \<^verbatim>\<open>toFixed\<close> prints for a value below \<open>10 ^ 21\<close> reads back as the rounded value.\<close>

lemma unsigned_literal_fixed_digits:
  assumes "0 \<le> x" and "x < 10 ^ 21" and "0 < f"
  shows "unsigned_literal (fixed_digits x f) = round_double (of_int \<lfloor>x * 10 ^ f + 1 / 2\<rfloor> / 10 ^ f)"
    and "fixed_digits x f \<noteq> []"
    and "is_digit (hd (fixed_digits x f))"
    and "is_digit (last (fixed_digits x f))"
    and "non_decimal (fixed_digits x f) = None"
proof -
  define n where "n = \<lfloor>x * 10 ^ f + 1 / 2\<rfloor>"
  define z where "z = replicate (f + 1 - length (digits n)) (CHR ''0'') @ digits n"
  define a where "a = take (length z - f) z"
  define b where "b = drop (length z - f) z"
  have n0: "0 \<le> n"
    using assms(1) by (simp add: n_def)
  have zd: "list_all is_digit z"
    using digits_all_digits [OF n0] by (auto simp: z_def list_all_iff is_digit_zero)
  have zl: "f < length z"
    by (simp add: z_def)
  have ab: "a @ b = z"
    by (simp add: a_def b_def)
  have a_ne: "a \<noteq> []"
    using zl by (auto simp: a_def)
  have bl: "length b = f"
    using zl by (simp add: b_def)
  have ad: "list_all is_digit a" and bd: "list_all is_digit b"
    using zd by (auto simp: a_def b_def list_all_iff dest: in_set_takeD in_set_dropD)
  have zv: "digits_value z = n"
    by (simp add: z_def digits_value_zeros digits_value_digits n0)
  have shape: "fixed_digits x f = a @ CHR ''.'' # b"
    using assms(2,3) by (simp add: fixed_digits_def Let_def n_def z_def a_def b_def)
  have hd_a: "is_digit (hd a)"
    using ad a_ne by (cases a) simp_all
  show "fixed_digits x f \<noteq> []"
    by (simp add: shape)
  show first: "is_digit (hd (fixed_digits x f))"
    using hd_a a_ne by (simp add: shape)
  show "is_digit (last (fixed_digits x f))"
  proof (cases "b = []")
    case True
    then show ?thesis using bl assms(3) by simp
  next
    case False
    then have "last b \<in> set b" by simp
    then show ?thesis
      using bd False by (simp add: shape list_all_iff)
  qed
  show "non_decimal (fixed_digits x f) = None"
  proof (cases a)
    case Nil
    then show ?thesis using a_ne by simp
  next
    case (Cons c cs)
    show ?thesis
    proof (cases cs)
      case Nil
      then show ?thesis
        by (simp add: shape Cons non_decimal_def)
    next
      case (Cons d ds)
      then have "is_digit d"
        using ad \<open>a = c # cs\<close> by simp
      then show ?thesis
        by (simp add: shape \<open>a = c # cs\<close> Cons non_decimal_def is_digit_facts)
    qed
  qed
  have "fixed_digits x f \<noteq> ''Infinity''"
    using first by (auto simp: is_digit_def)
  then show "unsigned_literal (fixed_digits x f)
      = round_double (of_int \<lfloor>x * 10 ^ f + 1 / 2\<rfloor> / 10 ^ f)"
    unfolding unsigned_literal_def
    by (simp add: shape unsigned_decimal_point [OF ad bd a_ne] ab zv bl pow10_def n_def)
qed

text \<open>Values of the conversions at the numbers the examples below use.\<close>

lemma floor_fraction: "\<lfloor>numeral a / numeral b :: rat\<rfloor> = numeral a div numeral b"
  using floor_divide_of_int_eq [of "numeral a" "numeral b", where ?'a = rat] by simp

lemma round_double_values:
  "round_double 0 = Fin 0"
  "round_double 1 = Fin 1"
  "round_double 2 = Fin 2"
  "round_double (1 / 4) = Fin (1 / 4)"
  "round_double (1 / 1024) = Fin (1 / 1024)"
  unfolding round_double_def ilog2_def pow2_def round_half_even_def Let_def
  by (simp_all add: bitlen.simps)

text \<open>The number that the literal \<^verbatim>\<open>1e-17\<close> denotes: \<open>6490371073168535 / 2 ^ 109\<close>.\<close>

lemma round_double_1e17:
  "round_double (1 / 100000000000000000)
     = Fin (6490371073168535 / 649037107316853453566312041152512)"
  unfolding round_double_def ilog2_def pow2_def round_half_even_def Let_def
  by (simp add: bitlen.simps floor_fraction)

lemma StringToNumber_values:
  "StringToNumber ''1'' = Fin 1"
  "StringToNumber ''2'' = Fin 2"
  "StringToNumber ''0.0000000000000000'' = Fin 0"
  unfolding StringToNumber_def unsigned_literal_def unsigned_decimal_def Let_def trim_def
  by (simp_all add: is_ws_def non_decimal_def is_digit_def exponent_part_def digits_value_def
      digit_val_def pow10_def round_double_values)

lemma toFixed_values:
  "toFixed (Fin 1) 0 = Inr ''1''"
  "toFixed (Fin 2) 0 = Inr ''2''"
  "toFixed (Fin (1 / 4)) 16 = Inr ''0.2500000000000000''"
  "toFixed (Fin (- (1 / 1024))) 16 = Inr ''-0.0009765625000000''"
  "toFixed (Fin (6490371073168535 / 649037107316853453566312041152512)) 16
     = Inr ''0.0000000000000000''"
  by code_simp+

section \<open>Facts about the methods\<close>

lemmas mode_defs = NeverDepth_def AlwaysDepth_def LessDepth_def LessEqualDepth_def EqualDepth_def
  GreaterEqualDepth_def GreaterDepth_def NotEqualDepth_def

lemma setDepthMode_result:
  "setDepthMode mode m =
     (None, m\<lparr>depthMode := mode,
              defines_map := (defines_map m)(''depthTest(d0, d1)'' \<mapsto> String (depthTest_text mode)),
              needsUpdate := True\<rparr>)"
  by (simp add: setDepthMode_def seq_def assign_depthMode_def assign_define_def
      assign_needsUpdate_def)

lemma depthTest_text_modes:
  "depthTest_text NeverDepth = ''false''"
  "depthTest_text AlwaysDepth = ''true''"
  "depthTest_text EqualDepth = ''abs(d1 - d0) <= DEPTH_EPSILON''"
  "depthTest_text NotEqualDepth = ''abs(d1 - d0) > DEPTH_EPSILON''"
  "depthTest_text LessDepth = ''d0 > d1''"
  "depthTest_text LessEqualDepth = ''d0 >= d1''"
  "depthTest_text GreaterEqualDepth = ''d0 <= d1''"
  "depthTest_text GreaterDepth = ''d0 < d1''"
  by (simp_all add: depthTest_text_def strict_eq_def mode_defs)

lemmas parse_defs = read_pred_def parse_pred_def parse_operand_def cmp_of_def flush_def is_ident_char_def

lemma parse_texts:
  "read_pred (''false'') = Some (BConst False)"
  "read_pred (''true'') = Some (BConst True)"
  "read_pred (''abs(d1 - d0) <= DEPTH_EPSILON'') =
     Some (Cmp (Abs (Sub (Var ''d1'') (Var ''d0''))) Le (Var ''DEPTH_EPSILON''))"
  "read_pred (''abs(d1 - d0) > DEPTH_EPSILON'') =
     Some (Cmp (Abs (Sub (Var ''d1'') (Var ''d0''))) Gt (Var ''DEPTH_EPSILON''))"
  "read_pred (''d0 > d1'') = Some (Cmp (Var ''d0'') Gt (Var ''d1''))"
  "read_pred (''d0 >= d1'') = Some (Cmp (Var ''d0'') Ge (Var ''d1''))"
  "read_pred (''d0 <= d1'') = Some (Cmp (Var ''d0'') Le (Var ''d1''))"
  "read_pred (''d0 < d1'') = Some (Cmp (Var ''d0'') Lt (Var ''d1''))"
  by (simp_all add: parse_defs)

lemma epsilon_value_setDepthMode:
  "epsilon_value (snd (setDepthMode mode m)) = epsilon_value m"
  by (simp add: setDepthMode_result epsilon_value_def get_prop_def)

lemma shader_env_setDepthMode:
  "shader_env (snd (setDepthMode mode m)) d0 d1 = shader_env m d0 d1"
  unfolding shader_env_def epsilon_value_setDepthMode ..

lemma depthTest_text_installed:
  "defines_map (snd (setDepthMode mode m)) ''depthTest(d0, d1)'' = Some (String (depthTest_text mode))"
  by (simp add: setDepthMode_result)

lemma depthTest_after_setDepthMode:
  "depthTest (snd (setDepthMode mode m)) d0 d1 =
     (case read_pred ((depthTest_text mode)) of
        None \<Rightarrow> None
      | Some b \<Rightarrow> bval b (shader_env m d0 d1))"
  unfolding depthTest_def depthTest_text_installed shader_env_setDepthMode by simp

lemma shader_env_names:
  "shader_env m d0 d1 ''d0'' = Some d0"
  "shader_env m d0 d1 ''d1'' = Some d1"
  "shader_env m d0 d1 ''DEPTH_EPSILON'' = epsilon_value m"
  by (simp_all add: shader_env_def)

lemma toFixed_small: "f \<le> 100 \<Longrightarrow> toFixed x f = Inr (projr (toFixed x f))"
  by (cases x) (simp_all add: toFixed_def)

lemma call_toFixed_Number:
  "f \<le> 100 \<Longrightarrow> call_toFixed (Number x) f = Inr (String (projr (toFixed x f)))"
  by (cases x) (simp_all add: call_toFixed_def toFixed_def)

lemma setEpsilon_result:
  "setEpsilon v m =
     (case call_toFixed v 16 of
        Inl e \<Rightarrow> (Some e, m)
      | Inr s \<Rightarrow> (None, m\<lparr>defines_map := (defines_map m)(''DEPTH_EPSILON'' \<mapsto> s),
                          needsUpdate := True\<rparr>))"
  by (simp add: setEpsilon_def seq_def assign_define_def assign_needsUpdate_def split: sum.split)

lemma setMaxDepthStrategy_result:
  "setMaxDepthStrategy v m =
     (case call_toFixed v 0 of
        Inl e \<Rightarrow> (Some e, m)
      | Inr s \<Rightarrow> (None, m\<lparr>defines_map := (defines_map m)(''DEPTH_TEST_STRATEGY'' \<mapsto> s),
                          needsUpdate := True\<rparr>))"
  by (simp add: setMaxDepthStrategy_def seq_def assign_define_def assign_needsUpdate_def
      split: sum.split)

lemma setEpsilon_Number:
  "setEpsilon (Number x) m =
     (None, m\<lparr>defines_map := (defines_map m)(''DEPTH_EPSILON'' \<mapsto> String (projr (toFixed x 16))),
              needsUpdate := True\<rparr>)"
  by (simp add: setEpsilon_result call_toFixed_Number)

lemma setMaxDepthStrategy_Number:
  "setMaxDepthStrategy (Number x) m =
     (None, m\<lparr>defines_map :=
                (defines_map m)(''DEPTH_TEST_STRATEGY'' \<mapsto> String (projr (toFixed x 0))),
              needsUpdate := True\<rparr>)"
  by (simp add: setMaxDepthStrategy_result call_toFixed_Number)

lemma depthTest_without_epsilon:
  assumes "defines_map m ''depthTest(d0, d1)'' = Some (String (depthTest_text mode))"
    and "\<not> strict_eq mode EqualDepth" and "\<not> strict_eq mode NotEqualDepth"
  shows "depthTest m d0 d1 =
     Some (if strict_eq mode NeverDepth then False
           else if strict_eq mode AlwaysDepth then True
           else if strict_eq mode LessDepth then d0 > d1
           else if strict_eq mode LessEqualDepth then d0 \<ge> d1
           else if strict_eq mode GreaterEqualDepth then d0 \<le> d1
           else d0 < d1)"
  using assms by (simp add: depthTest_def depthTest_text_def parse_texts shader_env_names)

lemma text_kept_by_setEpsilon:
  "defines_map (snd (setEpsilon v m)) ''depthTest(d0, d1)'' = defines_map m ''depthTest(d0, d1)''"
  by (simp add: setEpsilon_result split: sum.split)

lemma new_material_state:
  "new_material =
     \<lparr>defines_map =
        [''DEPTH_EPSILON'' \<mapsto> String ''0.00001'',
         ''DEPTH_PACKING_0'' \<mapsto> String ''0'',
         ''DEPTH_PACKING_1'' \<mapsto> String ''0'',
         ''DEPTH_TEST_STRATEGY'' \<mapsto> Number (Fin 1),
         ''depthTest(d0, d1)'' \<mapsto> String ''d0 > d1''],
      toneMapped = False,
      depthMode = LessDepth,
      needsUpdate = True\<rparr>"
  by (simp add: new_material_def constructor_def base_material_def seq_def assign_toneMapped_def
      assign_depthMode_def setDepthMode_result depthTest_text_modes get_prop_def
      DepthTestStrategy_def)

lemma constructor_completes: "fst constructor = None"
  by (simp add: constructor_def seq_def assign_toneMapped_def assign_depthMode_def
      setDepthMode_result)

lemma epsilon_value_new_material: "epsilon_value new_material = Some (1 / 100000)"
  unfolding epsilon_value_def new_material_state
  by (simp add: get_prop_def macro_value_def unsigned_decimal_def exponent_part_def
      is_digit_def digits_value_def digit_val_def pow10_def)

lemma getMaxDepthStrategy_after_set:
  "getMaxDepthStrategy (snd (setMaxDepthStrategy (Number (Fin 1)) m)) = Number (Fin 1)"
  "getMaxDepthStrategy (snd (setMaxDepthStrategy (Number (Fin 2)) m)) = Number (Fin 2)"
  by (simp_all add: setMaxDepthStrategy_Number getMaxDepthStrategy_def get_prop_def ToNumber_def
      toFixed_values StringToNumber_values)

lemma strategy_values:
  "get_prop DepthTestStrategy ''KEEP'' = Undefined"
  "get_prop DepthTestStrategy ''DEFAULT'' = Number (Fin 0)"
  "get_prop DepthTestStrategy ''KEEP_MAX_DEPTH'' = Number (Fin 1)"
  "get_prop DepthTestStrategy ''DISCARD_MAX_DEPTH'' = Number (Fin 2)"
  by (simp_all add: get_prop_def DepthTestStrategy_def)

lemma set_keepFar_result:
  "set_keepFar v m = setMaxDepthStrategy (Number (Fin (if ToBoolean v then 1 else 2))) m"
  by (simp add: set_keepFar_def strategy_values)

lemma call_toFixed_fails:
  "call_toFixed v f = Inl e \<Longrightarrow> f \<le> 100 \<Longrightarrow> (\<forall>x. v \<noteq> Number x) \<and> e = TypeError"
  by (cases v) (simp_all add: call_toFixed_def toFixed_def split: jsnum.splits)

section \<open>Properties of the material\<close>

text \<open>
  C1. For each of the eight depth modes, \<^verbatim>\<open>setDepthMode\<close> completes normally and
  installs a predicate whose keep decision on every depth pair \<open>(d0, d1)\<close> is the one of
  the truth table: never false, always true, equal \<open>\<bar>d1 - d0\<bar> \<le> e\<close>, not equal
  \<open>\<bar>d1 - d0\<bar> > e\<close>, less \<open>d0 > d1\<close>, less or equal \<open>d0 \<ge> d1\<close>, greater
  \<open>d0 < d1\<close>, greater or equal \<open>d0 \<le> d1\<close>, where \<open>e\<close> is the value of the stored
  tolerance. At \<open>d0 = d1\<close> the strict modes discard and the others keep.
\<close>

theorem setDepthMode_truth_table:
  "fst (setDepthMode mode m) = None
   \<and> epsilon_value (snd (setDepthMode mode m)) = epsilon_value m
   \<and> depthTest (snd (setDepthMode NeverDepth m)) d0 d1 = Some False
   \<and> depthTest (snd (setDepthMode AlwaysDepth m)) d0 d1 = Some True
   \<and> depthTest (snd (setDepthMode LessDepth m)) d0 d1 = Some (d0 > d1)
   \<and> depthTest (snd (setDepthMode LessEqualDepth m)) d0 d1 = Some (d0 \<ge> d1)
   \<and> depthTest (snd (setDepthMode GreaterDepth m)) d0 d1 = Some (d0 < d1)
   \<and> depthTest (snd (setDepthMode GreaterEqualDepth m)) d0 d1 = Some (d0 \<le> d1)
   \<and> (epsilon_value m = Some e \<longrightarrow>
        depthTest (snd (setDepthMode EqualDepth m)) d0 d1 = Some (\<bar>d1 - d0\<bar> \<le> e)
        \<and> depthTest (snd (setDepthMode NotEqualDepth m)) d0 d1 = Some (\<bar>d1 - d0\<bar> > e))"
proof -
  have "fst (setDepthMode mode m) = None"
    by (simp add: setDepthMode_result)
  then show ?thesis
    by (simp add: depthTest_after_setDepthMode depthTest_text_modes parse_texts shader_env_names
        epsilon_value_setDepthMode)
qed

theorem setDepthMode_truth_table_witness:
  "epsilon_value new_material = Some (1 / 100000)
   \<and> depthTest (snd (setDepthMode NeverDepth new_material)) (1 / 2) (1 / 2) = Some False
   \<and> depthTest (snd (setDepthMode AlwaysDepth new_material)) (1 / 2) (1 / 2) = Some True
   \<and> depthTest (snd (setDepthMode EqualDepth new_material)) (1 / 2) (1 / 2) = Some True
   \<and> depthTest (snd (setDepthMode NotEqualDepth new_material)) (1 / 2) (1 / 2) = Some False
   \<and> depthTest (snd (setDepthMode LessDepth new_material)) (1 / 2) (1 / 2) = Some False
   \<and> depthTest (snd (setDepthMode LessEqualDepth new_material)) (1 / 2) (1 / 2) = Some True
   \<and> depthTest (snd (setDepthMode GreaterDepth new_material)) (1 / 2) (1 / 2) = Some False
   \<and> depthTest (snd (setDepthMode GreaterEqualDepth new_material)) (1 / 2) (1 / 2) = Some True
   \<and> depthTest (snd (setDepthMode LessDepth new_material)) (3 / 10) (1 / 2) = Some False
   \<and> depthTest (snd (setDepthMode EqualDepth new_material)) (1 / 2) (101 / 200) = Some False"
  using setDepthMode_truth_table [of LessDepth new_material "1 / 2" "1 / 2" "1 / 100000"]
    setDepthMode_truth_table [of LessDepth new_material "3 / 10" "1 / 2" "1 / 100000"]
    setDepthMode_truth_table [of LessDepth new_material "1 / 2" "101 / 200" "1 / 100000"]
  by (simp add: epsilon_value_new_material)

text \<open>
  C2. A mode that is strictly equal to none of the eight constants is accepted:
  \<^verbatim>\<open>setDepthMode\<close> completes normally and installs the text \<^verbatim>\<open>d0 < d1\<close>, the one
  it installs for \<^verbatim>\<open>GreaterDepth\<close>, so the pixel is kept exactly when \<open>d0 < d1\<close>.
\<close>

theorem setDepthMode_unrecognized:
  assumes "\<not> strict_eq mode NeverDepth" and "\<not> strict_eq mode AlwaysDepth"
    and "\<not> strict_eq mode EqualDepth" and "\<not> strict_eq mode NotEqualDepth"
    and "\<not> strict_eq mode LessDepth" and "\<not> strict_eq mode LessEqualDepth"
    and "\<not> strict_eq mode GreaterEqualDepth" and "\<not> strict_eq mode GreaterDepth"
  shows "fst (setDepthMode mode m) = None
    \<and> defines_map (snd (setDepthMode mode m)) ''depthTest(d0, d1)'' = Some (String ''d0 < d1'')
    \<and> defines_map (snd (setDepthMode mode m)) ''depthTest(d0, d1)''
        = defines_map (snd (setDepthMode GreaterDepth m)) ''depthTest(d0, d1)''
    \<and> depthTest (snd (setDepthMode mode m)) d0 d1 = Some (d0 < d1)
    \<and> depthTest (snd (setDepthMode mode m)) d0 d1
        = depthTest (snd (setDepthMode GreaterDepth m)) d0 d1"
proof -
  have installed: "depthTest_text mode = ''d0 < d1''"
    using assms by (simp add: depthTest_text_def)
  have "fst (setDepthMode mode m) = None"
    by (simp add: setDepthMode_result)
  then show ?thesis
    by (simp add: depthTest_after_setDepthMode depthTest_text_installed installed
        depthTest_text_modes parse_texts shader_env_names)
qed

theorem setDepthMode_unrecognized_witness:
  "\<not> strict_eq (String ''LessDepth'') NeverDepth
   \<and> \<not> strict_eq (String ''LessDepth'') GreaterDepth
   \<and> fst (setDepthMode (String ''LessDepth'') new_material) = None
   \<and> depthTest (snd (setDepthMode (String ''LessDepth'') new_material)) (1 / 4) (1 / 2) = Some True
   \<and> depthTest (snd (setDepthMode (String ''LessDepth'') new_material)) (1 / 2) (1 / 2) = Some False"
  using setDepthMode_unrecognized [of "String ''LessDepth''" new_material "1 / 4" "1 / 2"]
    setDepthMode_unrecognized [of "String ''LessDepth''" new_material "1 / 2" "1 / 2"]
  by (simp add: strict_eq_def mode_defs)

text \<open>
  C3. The claim that \<^verbatim>\<open>getEpsilon()\<close> returns every \<open>v \<ge> 0\<close> given to
  \<^verbatim>\<open>setEpsilon\<close> fails at its own example: the tolerance is stored with sixteen
  decimal places. The number that the literal \<^verbatim>\<open>1e-17\<close> denotes is positive, is
  stored as \<^verbatim>\<open>0.0000000000000000\<close> and is read back as 0.
\<close>

theorem epsilon_round_trip_counterexample:
  "round_double (1 / 10 ^ 17) = Fin (6490371073168535 / 2 ^ 109)
   \<and> fst (setEpsilon (Number (round_double (1 / 10 ^ 17))) new_material) = None
   \<and> defines_map (snd (setEpsilon (Number (round_double (1 / 10 ^ 17))) new_material))
        ''DEPTH_EPSILON''
       = Some (String ''0.0000000000000000'')
   \<and> getEpsilon (snd (setEpsilon (Number (round_double (1 / 10 ^ 17))) new_material))
       = Number (Fin 0)
   \<and> getEpsilon (snd (setEpsilon (Number (round_double (1 / 10 ^ 17))) new_material))
       \<noteq> Number (round_double (1 / 10 ^ 17))"
  by (simp add: round_double_1e17 setEpsilon_Number toFixed_values getEpsilon_def get_prop_def
      ToNumber_def StringToNumber_values)

text \<open>
  C3, as amended. For every \<open>v\<close> with \<open>0 \<le> v < 10 ^ 21\<close>, \<^verbatim>\<open>setEpsilon(v)\<close>
  completes normally and \<^verbatim>\<open>getEpsilon()\<close> then returns the binary64 value nearest to
  \<open>v\<close> rounded to sixteen decimal places (halves upwards). It returns \<open>v\<close> itself when
  \<open>v\<close> is a binary64 value with at most sixteen decimal places, and 0 when
  \<open>v < 5e-17\<close>.
\<close>

theorem epsilon_round_trip_rounded:
  assumes "0 \<le> v" and "v < 10 ^ 21"
  shows "fst (setEpsilon (Number (Fin v)) m) = None
    \<and> getEpsilon (snd (setEpsilon (Number (Fin v)) m))
        = Number (round_double (of_int \<lfloor>v * 10 ^ 16 + 1 / 2\<rfloor> / 10 ^ 16))
    \<and> (of_int \<lfloor>v * 10 ^ 16\<rfloor> = v * 10 ^ 16 \<and> round_double v = Fin v
        \<longrightarrow> getEpsilon (snd (setEpsilon (Number (Fin v)) m)) = Number (Fin v))
    \<and> (v < 1 / (2 * 10 ^ 16)
        \<longrightarrow> getEpsilon (snd (setEpsilon (Number (Fin v)) m)) = Number (Fin 0))"
proof -
  let ?n = "\<lfloor>v * 10 ^ 16 + 1 / 2\<rfloor>"
  have printed: "toFixed (Fin v) 16 = Inr (fixed_digits v 16)"
    using assms(1) by (simp add: toFixed_def abs_of_nonneg)
  have stored:
    "setEpsilon (Number (Fin v)) m =
       (None, m\<lparr>defines_map := (defines_map m)(''DEPTH_EPSILON'' \<mapsto> String (fixed_digits v 16)),
                needsUpdate := True\<rparr>)"
    by (simp add: setEpsilon_Number printed)
  have "StringToNumber (fixed_digits v 16) = unsigned_literal (fixed_digits v 16)"
    by (intro StringToNumber_unsigned unsigned_literal_fixed_digits assms) simp_all
  also have "\<dots> = round_double (of_int ?n / 10 ^ 16)"
    by (intro unsigned_literal_fixed_digits assms) simp_all
  finally have parsed: "StringToNumber (fixed_digits v 16) = round_double (of_int ?n / 10 ^ 16)" .
  have result: "getEpsilon (snd (setEpsilon (Number (Fin v)) m))
      = Number (round_double (of_int ?n / 10 ^ 16))"
    unfolding stored by (simp add: getEpsilon_def get_prop_def ToNumber_def parsed)
  have exact: "of_int ?n / 10 ^ 16 = v" if "of_int \<lfloor>v * 10 ^ 16\<rfloor> = v * 10 ^ 16"
  proof -
    define k where "k = \<lfloor>v * 10 ^ 16\<rfloor>"
    have vk: "v * 10 ^ 16 = of_int k"
      unfolding k_def using that by (rule sym)
    have "\<lfloor>of_int k + (1 / 2 :: rat)\<rfloor> = k"
      by (simp add: floor_eq_iff)
    then have "of_int ?n = v * 10 ^ 16"
      by (simp only: vk)
    then show ?thesis
      by simp
  qed
  have tiny: "?n = 0" if "v < 1 / (2 * 10 ^ 16)"
  proof -
    have "v * 10 ^ 16 < 1 / 2"
      using that by (simp add: field_simps)
    then show ?thesis
      using assms(1) by (simp add: floor_eq_iff)
  qed
  have completes: "fst (setEpsilon (Number (Fin v)) m) = None"
    by (simp add: stored)
  have same: "getEpsilon (snd (setEpsilon (Number (Fin v)) m)) = Number (Fin v)"
    if "of_int \<lfloor>v * 10 ^ 16\<rfloor> = v * 10 ^ 16 \<and> round_double v = Fin v"
    unfolding result exact [OF conjunct1 [OF that]] using that by simp
  have lost: "getEpsilon (snd (setEpsilon (Number (Fin v)) m)) = Number (Fin 0)"
    if "v < 1 / (2 * 10 ^ 16)"
    unfolding result tiny [OF that] by (simp add: round_double_values)
  show ?thesis
    using completes result same lost by blast
qed

theorem epsilon_round_trip_rounded_witness:
  "(0 :: rat) \<le> 1 / 4 \<and> (1 / 4 :: rat) < 10 ^ 21
   \<and> fst (setEpsilon (Number (Fin (1 / 4))) new_material) = None
   \<and> getEpsilon (snd (setEpsilon (Number (Fin (1 / 4))) new_material)) = Number (Fin (1 / 4))
   \<and> (0 :: rat) \<le> 1 / 10 ^ 17 \<and> (1 / 10 ^ 17 :: rat) < 1 / (2 * 10 ^ 16)
   \<and> getEpsilon (snd (setEpsilon (Number (Fin (1 / 10 ^ 17))) new_material)) = Number (Fin 0)"
proof -
  have quarter: "(0 :: rat) \<le> 1 / 4" "(1 / 4 :: rat) < 10 ^ 21"
    and places: "of_int \<lfloor>(1 / 4 :: rat) * 10 ^ 16\<rfloor> = (1 / 4 :: rat) * 10 ^ 16"
    and binary: "round_double (1 / 4) = Fin (1 / 4)"
    by (simp_all add: round_double_values)
  have small: "(0 :: rat) \<le> 1 / 10 ^ 17" "(1 / 10 ^ 17 :: rat) < 10 ^ 21"
    and below: "(1 / 10 ^ 17 :: rat) < 1 / (2 * 10 ^ 16)"
    by simp_all
  show ?thesis
    using epsilon_round_trip_rounded [OF quarter, of new_material]
      epsilon_round_trip_rounded [OF small, of new_material]
      quarter places binary small below
    by blast
qed

text \<open>
  C4. The deprecated getter \<^verbatim>\<open>keepFar\<close> is false in every state of the material:
  it compares the strategy, always a number, with the property \<^verbatim>\<open>KEEP\<close> that the
  enumeration does not have (undefined). After \<^verbatim>\<open>keepFar = true\<close> the strategy is
  \<^verbatim>\<open>KEEP_MAX_DEPTH\<close> and the getter is still false.
\<close>

theorem keepFar_getter_always_false:
  "get_keepFar m = False
   \<and> get_prop DepthTestStrategy ''KEEP'' = Undefined
   \<and> getMaxDepthStrategy (snd (set_keepFar (Boolean True) m))
       = get_prop DepthTestStrategy ''KEEP_MAX_DEPTH''
   \<and> get_keepFar (snd (set_keepFar (Boolean True) m)) = False"
proof -
  have "get_keepFar m' = False" for m'
    by (simp add: get_keepFar_def getMaxDepthStrategy_def strict_eq_def strategy_values)
  then show ?thesis
    by (simp add: strategy_values set_keepFar_result ToBoolean_def getMaxDepthStrategy_after_set)
qed

text \<open>
  C5. Assigning \<^verbatim>\<open>keepFar\<close> completes normally and sets the strategy to
  \<^verbatim>\<open>KEEP_MAX_DEPTH\<close> for a true value and to \<^verbatim>\<open>DISCARD_MAX_DEPTH\<close> for a
  false one; after \<^verbatim>\<open>keepFar = false\<close>, \<^verbatim>\<open>getMaxDepthStrategy()\<close> returns 2.
\<close>

theorem keepFar_setter:
  "fst (set_keepFar v m) = None
   \<and> getMaxDepthStrategy (snd (set_keepFar v m))
       = (if ToBoolean v then get_prop DepthTestStrategy ''KEEP_MAX_DEPTH''
          else get_prop DepthTestStrategy ''DISCARD_MAX_DEPTH'')
   \<and> getMaxDepthStrategy (snd (set_keepFar (Boolean True) m)) = Number (Fin 1)
   \<and> getMaxDepthStrategy (snd (set_keepFar (Boolean False) m)) = Number (Fin 2)"
proof -
  have completes: "fst (set_keepFar v m) = None"
    by (simp add: set_keepFar_result setMaxDepthStrategy_Number)
  have general: "getMaxDepthStrategy (snd (set_keepFar w m))
      = (if ToBoolean w then get_prop DepthTestStrategy ''KEEP_MAX_DEPTH''
         else get_prop DepthTestStrategy ''DISCARD_MAX_DEPTH'')" for w
    by (cases "ToBoolean w")
      (simp_all add: set_keepFar_result strategy_values getMaxDepthStrategy_after_set)
  have "ToBoolean (Boolean True)" and "\<not> ToBoolean (Boolean False)"
    by (simp_all add: ToBoolean_def)
  then show ?thesis
    using completes general [of v] general [of "Boolean True"] general [of "Boolean False"]
    by (simp add: strategy_values)
qed

text \<open>
  C6. The claim that a negative tolerance is rejected with a ConfigurationError fails:
  the class has no such error and no check. \<^verbatim>\<open>setEpsilon(-0.0009765625)\<close>
  completes normally, stores the text \<^verbatim>\<open>-0.0009765625000000\<close> and sets the flag.
\<close>

theorem negative_epsilon_counterexample:
  "round_double (1 / 1024) = Fin (1 / 1024)
   \<and> fst (setEpsilon (Number (Fin (- (1 / 1024)))) (new_material\<lparr>needsUpdate := False\<rparr>)) = None
   \<and> defines_map
        (snd (setEpsilon (Number (Fin (- (1 / 1024)))) (new_material\<lparr>needsUpdate := False\<rparr>)))
        ''DEPTH_EPSILON''
       = Some (String ''-0.0009765625000000'')
   \<and> needsUpdate
        (snd (setEpsilon (Number (Fin (- (1 / 1024)))) (new_material\<lparr>needsUpdate := False\<rparr>)))"
  by (simp add: setEpsilon_Number toFixed_values round_double_values)

text \<open>
  C6, as amended. For every negative number \<open>v\<close>, \<^verbatim>\<open>setEpsilon(v)\<close> completes
  normally: it stores the text that \<^verbatim>\<open>toFixed(16)\<close> prints for \<open>v\<close>, a minus sign
  before the digits of \<open>- v\<close>, and sets the flag. Above \<open>- 10 ^ 21\<close>,
  \<^verbatim>\<open>getEpsilon()\<close> then returns the negative of the binary64 value nearest to \<open>- v\<close>
  rounded to sixteen decimal places.
\<close>

theorem negative_epsilon_stored:
  assumes "v < 0"
  shows "fst (setEpsilon (Number (Fin v)) m) = None
    \<and> defines_map (snd (setEpsilon (Number (Fin v)) m)) ''DEPTH_EPSILON''
        = Some (String (CHR ''-'' # fixed_digits (- v) 16))
    \<and> needsUpdate (snd (setEpsilon (Number (Fin v)) m))
    \<and> (- (10 ^ 21) < v \<longrightarrow>
          getEpsilon (snd (setEpsilon (Number (Fin v)) m))
          = Number (negate (round_double (of_int \<lfloor>- v * 10 ^ 16 + 1 / 2\<rfloor> / 10 ^ 16))))"
proof -
  have printed: "toFixed (Fin v) 16 = Inr (CHR ''-'' # fixed_digits (- v) 16)"
    using assms by (simp add: toFixed_def abs_of_neg)
  have stored:
    "setEpsilon (Number (Fin v)) m =
       (None, m\<lparr>defines_map :=
                  (defines_map m)(''DEPTH_EPSILON'' \<mapsto> String (CHR ''-'' # fixed_digits (- v) 16)),
                needsUpdate := True\<rparr>)"
    by (simp add: setEpsilon_Number printed)
  have parsed: "StringToNumber (CHR ''-'' # fixed_digits (- v) 16)
      = negate (round_double (of_int \<lfloor>- v * 10 ^ 16 + 1 / 2\<rfloor> / 10 ^ 16))"
    if "- (10 ^ 21) < v"
  proof -
    have range: "0 \<le> - v" "- v < 10 ^ 21"
      using assms that by simp_all
    have "StringToNumber (CHR ''-'' # fixed_digits (- v) 16)
        = negate (unsigned_literal (fixed_digits (- v) 16))"
      by (intro StringToNumber_minus unsigned_literal_fixed_digits range) simp_all
    also have "unsigned_literal (fixed_digits (- v) 16)
        = round_double (of_int \<lfloor>- v * 10 ^ 16 + 1 / 2\<rfloor> / 10 ^ 16)"
      by (intro unsigned_literal_fixed_digits range) simp_all
    finally show ?thesis .
  qed
  show ?thesis
    unfolding stored using parsed
    by (simp add: getEpsilon_def get_prop_def ToNumber_def)
qed

theorem negative_epsilon_stored_witness:
  "(- (1 / 1024) :: rat) < 0 \<and> - (10 ^ 21) < (- (1 / 1024) :: rat)
   \<and> fst (setEpsilon (Number (Fin (- (1 / 1024)))) new_material) = None
   \<and> needsUpdate (snd (setEpsilon (Number (Fin (- (1 / 1024)))) new_material))
   \<and> getEpsilon (snd (setEpsilon (Number (Fin (- (1 / 1024)))) new_material))
       = Number (Fin (- (1 / 1024)))"
proof -
  have neg: "(- (1 / 1024) :: rat) < 0" and above: "- (10 ^ 21) < (- (1 / 1024) :: rat)"
    by simp_all
  have rounded:
    "negate (round_double (of_int \<lfloor>- (- (1 / 1024) :: rat) * 10 ^ 16 + 1 / 2\<rfloor> / 10 ^ 16))
       = Fin (- (1 / 1024))"
    by (simp add: floor_fraction round_double_values negate_def)
  show ?thesis
    using negative_epsilon_stored [OF neg, of new_material] neg above
    unfolding rounded by blast
qed

text \<open>
  C7. Every setter called with an argument of its documented type (any value for the
  mode, a number for the tolerance and for the strategy) completes normally and leaves
  \<^verbatim>\<open>needsUpdate\<close> true, whatever the state before, also when the argument is the
  value that the matching getter returns.
\<close>

theorem setters_mark_stale:
  "fst (setDepthMode mode m) = None \<and> needsUpdate (snd (setDepthMode mode m))
   \<and> fst (setEpsilon (Number x) m) = None \<and> needsUpdate (snd (setEpsilon (Number x) m))
   \<and> fst (setMaxDepthStrategy (Number x) m) = None
   \<and> needsUpdate (snd (setMaxDepthStrategy (Number x) m))
   \<and> needsUpdate (snd (setDepthMode (getDepthMode m) m))
   \<and> needsUpdate (snd (setEpsilon (getEpsilon m) m))
   \<and> needsUpdate (snd (setMaxDepthStrategy (getMaxDepthStrategy m) m))"
  by (simp add: setDepthMode_result setEpsilon_Number setMaxDepthStrategy_Number getEpsilon_def
      getMaxDepthStrategy_def)

text \<open>
  C8. A setter that throws leaves the material as it was, the dirty flag included; the
  only failure is the TypeError of calling \<^verbatim>\<open>toFixed\<close> on a value that is not a
  number. A setter that completes normally has stored the new text and set the flag.
  \<^verbatim>\<open>setDepthMode\<close> never throws.
\<close>

theorem setters_atomic:
  "(fst (setEpsilon v m) \<noteq> None \<longrightarrow>
      snd (setEpsilon v m) = m \<and> fst (setEpsilon v m) = Some TypeError \<and> (\<forall>x. v \<noteq> Number x))
   \<and> (fst (setEpsilon v m) = None \<longrightarrow>
      (\<exists>s. call_toFixed v 16 = Inr s
        \<and> defines_map (snd (setEpsilon v m)) ''DEPTH_EPSILON'' = Some s)
      \<and> needsUpdate (snd (setEpsilon v m)))
   \<and> (fst (setMaxDepthStrategy v m) \<noteq> None \<longrightarrow>
      snd (setMaxDepthStrategy v m) = m \<and> fst (setMaxDepthStrategy v m) = Some TypeError
      \<and> (\<forall>x. v \<noteq> Number x))
   \<and> (fst (setMaxDepthStrategy v m) = None \<longrightarrow>
      (\<exists>s. call_toFixed v 0 = Inr s
        \<and> defines_map (snd (setMaxDepthStrategy v m)) ''DEPTH_TEST_STRATEGY'' = Some s)
      \<and> needsUpdate (snd (setMaxDepthStrategy v m)))
   \<and> fst (setDepthMode v m) = None
   \<and> defines_map (snd (setDepthMode v m)) ''depthTest(d0, d1)''
       = Some (String (depthTest_text v))
   \<and> depthMode (snd (setDepthMode v m)) = v
   \<and> needsUpdate (snd (setDepthMode v m))"
proof -
  have eps: "call_toFixed v 16 = Inl e \<Longrightarrow> (\<forall>x. v \<noteq> Number x) \<and> e = TypeError" for e
    using call_toFixed_fails [of v 16 e] by simp
  have str: "call_toFixed v 0 = Inl e \<Longrightarrow> (\<forall>x. v \<noteq> Number x) \<and> e = TypeError" for e
    using call_toFixed_fails [of v 0 e] by simp
  show ?thesis
    using eps str
    by (auto simp: setEpsilon_result setMaxDepthStrategy_result setDepthMode_result
        split: sum.splits)
qed

theorem setters_atomic_witness:
  "fst (setEpsilon Undefined (new_material\<lparr>needsUpdate := False\<rparr>)) = Some TypeError
   \<and> snd (setEpsilon Undefined (new_material\<lparr>needsUpdate := False\<rparr>))
       = new_material\<lparr>needsUpdate := False\<rparr>
   \<and> fst (setMaxDepthStrategy (String ''2'') (new_material\<lparr>needsUpdate := False\<rparr>))
       = Some TypeError
   \<and> snd (setMaxDepthStrategy (String ''2'') (new_material\<lparr>needsUpdate := False\<rparr>))
       = new_material\<lparr>needsUpdate := False\<rparr>
   \<and> fst (setEpsilon (Number (Fin (1 / 4))) (new_material\<lparr>needsUpdate := False\<rparr>)) = None
   \<and> needsUpdate (snd (setEpsilon (Number (Fin (1 / 4))) (new_material\<lparr>needsUpdate := False\<rparr>)))
   \<and> fst (setMaxDepthStrategy (Number (Fin 2)) (new_material\<lparr>needsUpdate := False\<rparr>)) = None
   \<and> needsUpdate
        (snd (setMaxDepthStrategy (Number (Fin 2)) (new_material\<lparr>needsUpdate := False\<rparr>)))"
proof -
  have fails:
    "fst (setEpsilon Undefined (new_material\<lparr>needsUpdate := False\<rparr>)) \<noteq> None"
    "fst (setMaxDepthStrategy (String ''2'') (new_material\<lparr>needsUpdate := False\<rparr>)) \<noteq> None"
    by (simp_all add: setEpsilon_result setMaxDepthStrategy_result call_toFixed_def)
  have completes:
    "fst (setEpsilon (Number (Fin (1 / 4))) (new_material\<lparr>needsUpdate := False\<rparr>)) = None"
    "fst (setMaxDepthStrategy (Number (Fin 2)) (new_material\<lparr>needsUpdate := False\<rparr>)) = None"
    by (simp_all add: setEpsilon_Number setMaxDepthStrategy_Number)
  show ?thesis
    using fails completes
      setters_atomic [of Undefined "new_material\<lparr>needsUpdate := False\<rparr>"]
      setters_atomic [of "String ''2''" "new_material\<lparr>needsUpdate := False\<rparr>"]
      setters_atomic [of "Number (Fin (1 / 4))" "new_material\<lparr>needsUpdate := False\<rparr>"]
      setters_atomic [of "Number (Fin 2)" "new_material\<lparr>needsUpdate := False\<rparr>"]
    by simp
qed

text \<open>
  C9. For a mode other than \<^verbatim>\<open>EqualDepth\<close> and \<^verbatim>\<open>NotEqualDepth\<close> (an
  unrecognised value included) the keep decision does not depend on the tolerance: it is
  the same in any two materials given that mode, it is unchanged by any later call of
  \<^verbatim>\<open>setEpsilon\<close>, and it is always defined.
\<close>

theorem epsilon_irrelevant:
  assumes "\<not> strict_eq mode EqualDepth" and "\<not> strict_eq mode NotEqualDepth"
  shows "depthTest (snd (setDepthMode mode m1)) d0 d1 = depthTest (snd (setDepthMode mode m2)) d0 d1
    \<and> depthTest (snd (setEpsilon v (snd (setDepthMode mode m1)))) d0 d1
        = depthTest (snd (setDepthMode mode m1)) d0 d1
    \<and> depthTest (snd (setDepthMode mode m1)) d0 d1 \<noteq> None"
proof -
  have a: "depthTest (snd (setDepthMode mode m)) d0 d1 =
     Some (if strict_eq mode NeverDepth then False
           else if strict_eq mode AlwaysDepth then True
           else if strict_eq mode LessDepth then d0 > d1
           else if strict_eq mode LessEqualDepth then d0 \<ge> d1
           else if strict_eq mode GreaterEqualDepth then d0 \<le> d1
           else d0 < d1)" for m
    using depthTest_without_epsilon [OF depthTest_text_installed assms] .
  have b: "depthTest (snd (setEpsilon v (snd (setDepthMode mode m1)))) d0 d1 =
     Some (if strict_eq mode NeverDepth then False
           else if strict_eq mode AlwaysDepth then True
           else if strict_eq mode LessDepth then d0 > d1
           else if strict_eq mode LessEqualDepth then d0 \<ge> d1
           else if strict_eq mode GreaterEqualDepth then d0 \<le> d1
           else d0 < d1)"
    by (rule depthTest_without_epsilon [OF _ assms])
      (simp add: text_kept_by_setEpsilon depthTest_text_installed)
  show ?thesis
    unfolding a b by simp
qed

theorem epsilon_irrelevant_witness:
  "\<not> strict_eq LessEqualDepth EqualDepth \<and> \<not> strict_eq LessEqualDepth NotEqualDepth
   \<and> depthTest (snd (setDepthMode LessEqualDepth new_material)) (1 / 2) (1 / 2)
       = depthTest (snd (setDepthMode LessEqualDepth base_material)) (1 / 2) (1 / 2)
   \<and> depthTest
        (snd (setEpsilon (Number (Fin (1 / 4))) (snd (setDepthMode LessEqualDepth new_material))))
        (1 / 2) (1 / 2)
       = depthTest (snd (setDepthMode LessEqualDepth new_material)) (1 / 2) (1 / 2)
   \<and> depthTest (snd (setDepthMode LessEqualDepth new_material)) (1 / 2) (1 / 2) \<noteq> None"
proof -
  have other: "\<not> strict_eq LessEqualDepth EqualDepth" "\<not> strict_eq LessEqualDepth NotEqualDepth"
    by (simp_all add: strict_eq_def mode_defs)
  show ?thesis
    using epsilon_irrelevant [OF other, of new_material "1 / 2" "1 / 2" base_material
        "Number (Fin (1 / 4))"] other
    by blast
qed

text \<open>
  C10. The text of the predicate is a function of the mode alone: two materials given the
  same mode hold the same text, whatever they held before, and calling
  \<^verbatim>\<open>setDepthMode\<close> again with the mode just set leaves the whole state as it is.
  Two materials configured with the same mode, tolerance and strategy complete alike, and
  when the calls succeed they hold the same three definitions.
\<close>

theorem predicate_text_deterministic:
  "defines_map (snd (setDepthMode mode m1)) ''depthTest(d0, d1)''
     = defines_map (snd (setDepthMode mode m2)) ''depthTest(d0, d1)''
   \<and> setDepthMode mode (snd (setDepthMode mode m)) = setDepthMode mode m
   \<and> fst (seq (setDepthMode mode) (seq (setEpsilon eps) (setMaxDepthStrategy strat)) m1)
       = fst (seq (setDepthMode mode) (seq (setEpsilon eps) (setMaxDepthStrategy strat)) m2)
   \<and> (fst (seq (setDepthMode mode) (seq (setEpsilon eps) (setMaxDepthStrategy strat)) m1) = None
        \<longrightarrow>
          defines_map
            (snd (seq (setDepthMode mode) (seq (setEpsilon eps) (setMaxDepthStrategy strat)) m1))
            ''depthTest(d0, d1)''
          = defines_map
            (snd (seq (setDepthMode mode) (seq (setEpsilon eps) (setMaxDepthStrategy strat)) m2))
            ''depthTest(d0, d1)''
        \<and> defines_map
            (snd (seq (setDepthMode mode) (seq (setEpsilon eps) (setMaxDepthStrategy strat)) m1))
            ''DEPTH_EPSILON''
          = defines_map
            (snd (seq (setDepthMode mode) (seq (setEpsilon eps) (setMaxDepthStrategy strat)) m2))
            ''DEPTH_EPSILON''
        \<and> defines_map
            (snd (seq (setDepthMode mode) (seq (setEpsilon eps) (setMaxDepthStrategy strat)) m1))
            ''DEPTH_TEST_STRATEGY''
          = defines_map
            (snd (seq (setDepthMode mode) (seq (setEpsilon eps) (setMaxDepthStrategy strat)) m2))
            ''DEPTH_TEST_STRATEGY'')"
proof -
  have configured:
    "seq (setDepthMode mode) (seq (setEpsilon eps) (setMaxDepthStrategy strat)) m' =
       (case call_toFixed eps 16 of
          Inl e \<Rightarrow> (Some e, snd (setDepthMode mode m'))
        | Inr s \<Rightarrow>
            (case call_toFixed strat 0 of
               Inl e \<Rightarrow> (Some e, snd (setEpsilon eps (snd (setDepthMode mode m'))))
             | Inr t \<Rightarrow>
                 (None,
                  m'\<lparr>depthMode := mode,
                      defines_map := (defines_map m')
                        (''depthTest(d0, d1)'' \<mapsto> String (depthTest_text mode),
                         ''DEPTH_EPSILON'' \<mapsto> s,
                         ''DEPTH_TEST_STRATEGY'' \<mapsto> t),
                      needsUpdate := True\<rparr>)))" for m'
    by (simp add: seq_def setDepthMode_result setEpsilon_result setMaxDepthStrategy_result
        split: sum.split)
  have again: "setDepthMode mode (snd (setDepthMode mode m)) = setDepthMode mode m"
    by (simp add: setDepthMode_result)
  show ?thesis
    unfolding configured
    by (simp add: again depthTest_text_installed split: sum.split)
qed

theorem predicate_text_deterministic_witness:
  "fst (seq (setDepthMode EqualDepth)
          (seq (setEpsilon (Number (Fin (1 / 4)))) (setMaxDepthStrategy (Number (Fin 2))))
          new_material) = None
   \<and> defines_map
        (snd (seq (setDepthMode EqualDepth)
          (seq (setEpsilon (Number (Fin (1 / 4)))) (setMaxDepthStrategy (Number (Fin 2))))
          new_material)) ''DEPTH_EPSILON''
      = defines_map
        (snd (seq (setDepthMode EqualDepth)
          (seq (setEpsilon (Number (Fin (1 / 4)))) (setMaxDepthStrategy (Number (Fin 2))))
          base_material)) ''DEPTH_EPSILON''
   \<and> defines_map
        (snd (seq (setDepthMode EqualDepth)
          (seq (setEpsilon (Number (Fin (1 / 4)))) (setMaxDepthStrategy (Number (Fin 2))))
          new_material)) ''depthTest(d0, d1)''
      = Some (String ''abs(d1 - d0) <= DEPTH_EPSILON'')"
proof -
  have completes:
    "fst (seq (setDepthMode EqualDepth)
          (seq (setEpsilon (Number (Fin (1 / 4)))) (setMaxDepthStrategy (Number (Fin 2))))
          new_material) = None"
    by (simp add: seq_def setDepthMode_result setEpsilon_Number setMaxDepthStrategy_Number)
  have installed:
    "defines_map
        (snd (seq (setDepthMode EqualDepth)
          (seq (setEpsilon (Number (Fin (1 / 4)))) (setMaxDepthStrategy (Number (Fin 2))))
          new_material)) ''depthTest(d0, d1)''
      = Some (String ''abs(d1 - d0) <= DEPTH_EPSILON'')"
    by (simp add: seq_def setDepthMode_result setEpsilon_Number setMaxDepthStrategy_Number
        depthTest_text_modes)
  show ?thesis
    using predicate_text_deterministic [of EqualDepth new_material base_material new_material
        "Number (Fin (1 / 4))" "Number (Fin 2)"] completes installed
    by simp
qed

end
